theory Spec2Isabelle
  imports Complex_Main "HOL-Library.List_Lexorder"
begin

section \<open>Errors\<close>

text \<open>
  A call of \<^verbatim>\<open>detail::error(message)\<close> ends the running operation; the operation then
  yields \<open>Inl (runtime_error message)\<close>. Reads and writes that C++ leaves undefined
  (\<^verbatim>\<open>front()\<close> of an empty vector, a write past the end of a vector) are results of their
  own, \<open>undefined_behaviour\<close>.
\<close>

datatype error = runtime_error string | undefined_behaviour string

text \<open>
  Modelled from the spec: \<^verbatim>\<open>detail::error\<close> is declared in a header that is not among the
  sources. Spec section 7: errors are fatal to the current operation and surface to the
  caller with a descriptive message.
\<close>

definition detail_error :: "string \<Rightarrow> error + 'a" where
  "detail_error message = Inl (runtime_error message)"

section \<open>Name lists\<close>

text \<open>
  The two nested loops of \<^verbatim>\<open>check_valid_name\<close>: for every position \<open>i\<close>, every later
  position \<open>j\<close> is compared with it.
\<close>

fun duplicated_names :: "'n list \<Rightarrow> bool" where
  "duplicated_names [] = False"
| "duplicated_names (i # later) = (if i \<in> set later then True else duplicated_names later)"

definition check_valid_name :: "'n list \<Rightarrow> nat \<Rightarrow> error + bool" where
  "check_valid_name names_list rank =
     (if length names_list \<noteq> rank
      then detail_error ''Wrong name list length which no equals to expected length''
      else if duplicated_names names_list
      then detail_error ''Duplicated names in name list''
      else Inr True)"

section \<open>Edges, blocks and the Core\<close>

text \<open>
  Modelled from the spec: \<^verbatim>\<open>edge.hpp\<close> is not among the sources. Spec section 3: an edge is an
  ordered sequence of segments \<open>(q, d)\<close>, a symmetry and a dimension, and carries an arrow.
\<close>

record 'q Edge =
  segment :: "('q \<times> nat) list"
  arrow :: bool

text \<open>
  The Core holds the edges, the block index and the flat storage. An entry of the block
  index is a symmetry tuple with the view of its block: the offset into the storage and the
  dense shape (spec section 3).
\<close>

type_synonym content_vector_t = "nat \<times> nat list"

record ('s, 'q) Core =
  core_edges :: "'q Edge list"
  core_blocks :: "('q list \<times> content_vector_t) list"
  core_storage :: "'s list"

text \<open>
  Modelled from the spec: the constructor of Core (\<^verbatim>\<open>core.hpp\<close>) is not among the sources.
  Spec section 4.2: enumerate the symmetry tuples of the Cartesian product of the edges'
  segments, keep the conserved ones, sort them lexicographically, compute each block's
  volume, allocate one storage of the summed volumes and record the offsets.
\<close>

definition candidate_blocks :: "'q Edge list \<Rightarrow> ('q list \<times> nat list) list" where
  "candidate_blocks es =
     map (\<lambda>segments. (map fst segments, map snd segments)) (product_lists (map segment es))"

text \<open>
  Modelled from the spec: the conservation law. Section 3 states it as \<open>\<Sum>\<^sub>k s\<^sub>k \<cdot> q\<^sub>k = 0\<close>
  with \<open>s\<^sub>k = -1\<close> exactly when edge \<open>k\<close> has its arrow set, and \<open>+1\<close> otherwise; section
  4.2 filters the Cartesian product by it.
\<close>

definition signed_sum :: "'q Edge list \<Rightarrow> 'q::{uminus, monoid_add} list \<Rightarrow> 'q" where
  "signed_sum es symmetries =
     sum_list (map2 (\<lambda>e q. if arrow e then - q else q) es symmetries)"

definition conserved :: "'q Edge list \<Rightarrow> 'q::{uminus, monoid_add} list \<Rightarrow> bool" where
  "conserved es symmetries = (signed_sum es symmetries = 0)"

definition volume :: "nat list \<Rightarrow> nat" where
  "volume dimensions = prod_list dimensions"

definition allowed_blocks :: "'q::{uminus, monoid_add, linorder} Edge list \<Rightarrow> ('q list \<times> nat list) list" where
  "allowed_blocks es = sort_key fst (filter (\<lambda>b. conserved es (fst b)) (candidate_blocks es))"

fun layout :: "nat \<Rightarrow> ('q list \<times> nat list) list \<Rightarrow> ('q list \<times> content_vector_t) list" where
  "layout offset [] = []"
| "layout offset (b # rest) =
     (fst b, (offset, snd b)) # layout (offset + volume (snd b)) rest"

definition total_volume :: "('q list \<times> nat list) list \<Rightarrow> nat" where
  "total_volume bs = sum_list (map (\<lambda>b. volume (snd b)) bs)"

text \<open>
  The storage is allocated without initialisation; \<open>junk\<close> gives the value found at each
  position of fresh memory.
\<close>

definition Core_init :: "(nat \<Rightarrow> 's) \<Rightarrow> 'q::{uminus, monoid_add, linorder} Edge list \<Rightarrow> ('s, 'q) Core" where
  "Core_init junk es =
     \<lparr>core_edges = es,
      core_blocks = layout 0 (allowed_blocks es),
      core_storage = map junk [0 ..< total_volume (allowed_blocks es)]\<rparr>"

section \<open>Shared ownership of Cores\<close>

text \<open>
  A Tensor holds its Core through a \<^verbatim>\<open>shared_ptr\<close>. The heap is the list of all control
  blocks ever allocated; a pointer is a position in it, and a new control block goes to the
  end, so its address is fresh. \<^verbatim>\<open>detail::what_if_copy_shared\<close> adds its message to the
  warnings.
\<close>

record ('s, 'q) control_block =
  payload :: "('s, 'q) Core"
  use_count :: nat

record ('s, 'q) state =
  heap :: "('s, 'q) control_block list"
  warnings :: "string list"

record 'n Tensor =
  names :: "'n list"
  core :: nat

definition make_shared :: "('s, 'q) Core \<Rightarrow> ('s, 'q) state \<Rightarrow> nat \<times> ('s, 'q) state" where
  "make_shared c \<sigma> =
     (length (heap \<sigma>), \<sigma>\<lparr>heap := heap \<sigma> @ [\<lparr>payload = c, use_count = 1\<rparr>]\<rparr>)"

definition deref :: "('s, 'q) state \<Rightarrow> 'n Tensor \<Rightarrow> ('s, 'q) Core" where
  "deref \<sigma> t = payload (heap \<sigma> ! core t)"

definition storage :: "('s, 'q) state \<Rightarrow> 'n Tensor \<Rightarrow> 's list" where
  "storage \<sigma> t = core_storage (deref \<sigma> t)"

definition edges :: "('s, 'q) state \<Rightarrow> 'n Tensor \<Rightarrow> 'q Edge list" where
  "edges \<sigma> t = core_edges (deref \<sigma> t)"

definition get_rank :: "'n Tensor \<Rightarrow> nat" where
  "get_rank t = length (names t)"

text \<open>Writing the storage of the Core that \<open>t\<close> points to, as \<^verbatim>\<open>storage() &\<close> allows.\<close>

definition put_storage :: "'n Tensor \<Rightarrow> 's list \<Rightarrow> ('s, 'q) state \<Rightarrow> ('s, 'q) state" where
  "put_storage t new_storage \<sigma> =
     \<sigma>\<lparr>heap := (heap \<sigma>)[core t :=
          (heap \<sigma> ! core t)\<lparr>payload := (deref \<sigma> t)\<lparr>core_storage := new_storage\<rparr>\<rparr>]\<rparr>"

section \<open>Constructors\<close>

text \<open>
  \<^verbatim>\<open>Tensor(names_init, edges_init)\<close>. The constant \<^verbatim>\<open>debug_mode\<close> is declared outside the
  sources and is a parameter here. The names are checked under \<^verbatim>\<open>if constexpr (debug_mode)\<close>
  only, after the Core has been made.
\<close>

definition Tensor_names_edges ::
  "bool \<Rightarrow> (nat \<Rightarrow> 's) \<Rightarrow> 'n list \<Rightarrow> 'q::{uminus, monoid_add, linorder} Edge list \<Rightarrow> ('s, 'q) state
     \<Rightarrow> error + ('n Tensor \<times> ('s, 'q) state)" where
  "Tensor_names_edges debug_mode junk names_init edges_init \<sigma> =
     (let (p, \<sigma>') = make_shared (Core_init junk edges_init) \<sigma>;
          this = \<lparr>names = names_init, core = p\<rparr>
      in if debug_mode
         then (case check_valid_name (names this) (length (edges \<sigma>' this)) of
                 Inl e \<Rightarrow> Inl e
               | Inr _ \<Rightarrow> Inr (this, \<sigma>'))
         else Inr (this, \<sigma>'))"

text \<open>\<^verbatim>\<open>storage().front() = number\<close>; the front of an empty vector is undefined.\<close>

definition assign_front :: "'n Tensor \<Rightarrow> 's \<Rightarrow> ('s, 'q) state \<Rightarrow> error + ('n Tensor \<times> ('s, 'q) state)" where
  "assign_front this number \<sigma> =
     (case storage \<sigma> this of
        [] \<Rightarrow> Inl (undefined_behaviour ''front() of an empty storage'')
      | x # rest \<Rightarrow> Inr (this, put_storage this (number # rest) \<sigma>))"

text \<open>\<^verbatim>\<open>explicit Tensor(ScalarType number) : Tensor({}, {})\<close>\<close>

definition Tensor_number ::
  "bool \<Rightarrow> (nat \<Rightarrow> 's) \<Rightarrow> 's \<Rightarrow> ('s, 'q::{uminus, monoid_add, linorder}) state
     \<Rightarrow> error + ('n Tensor \<times> ('s, 'q) state)" where
  "Tensor_number debug_mode junk number \<sigma> =
     (case Tensor_names_edges debug_mode junk [] [] \<sigma> of
        Inl e \<Rightarrow> Inl e
      | Inr (this, \<sigma>') \<Rightarrow> assign_front this number \<sigma>')"

text \<open>\<^verbatim>\<open>Tensor() : Tensor(1)\<close>\<close>

definition Tensor_default ::
  "bool \<Rightarrow> (nat \<Rightarrow> 's::one) \<Rightarrow> ('s, 'q::{uminus, monoid_add, linorder}) state
     \<Rightarrow> error + ('n Tensor \<times> ('s, 'q) state)" where
  "Tensor_default debug_mode junk \<sigma> = Tensor_number debug_mode junk 1 \<sigma>"

text \<open>
  \<^verbatim>\<open>get_edge_from_edge_symmetry_and_arrow\<close>. \<^verbatim>\<open>Symmetry::length\<close> and
  \<^verbatim>\<open>Symmetry::is_fermi_symmetry\<close> belong to the symmetry type, which is not among the
  sources; they are parameters. The loop runs over the symmetries and advances the arrows
  along with them; only a fermionic symmetry reads the arrow, and reading past the end of
  the arrows is undefined.
\<close>

fun edges_of_symmetry_and_arrow :: "bool \<Rightarrow> 'q list \<Rightarrow> bool list \<Rightarrow> error + 'q Edge list" where
  "edges_of_symmetry_and_arrow is_fermi_symmetry [] edge_arrow = Inr []"
| "edges_of_symmetry_and_arrow is_fermi_symmetry (symmetry # rest) edge_arrow =
     (if is_fermi_symmetry
      then (case edge_arrow of
              [] \<Rightarrow> Inl (undefined_behaviour ''read past the end of edge_arrow'')
            | a # arrows \<Rightarrow>
                (case edges_of_symmetry_and_arrow is_fermi_symmetry rest arrows of
                   Inl e \<Rightarrow> Inl e
                 | Inr result \<Rightarrow> Inr (\<lparr>segment = [(symmetry, 1)], arrow = a\<rparr> # result)))
      else (case edges_of_symmetry_and_arrow is_fermi_symmetry rest (tl edge_arrow) of
              Inl e \<Rightarrow> Inl e
            | Inr result \<Rightarrow> Inr (\<lparr>segment = [(symmetry, 1)], arrow = False\<rparr> # result)))"

definition get_edge_from_edge_symmetry_and_arrow ::
  "nat \<Rightarrow> bool \<Rightarrow> 'q::zero list \<Rightarrow> bool list \<Rightarrow> nat \<Rightarrow> error + 'q Edge list" where
  "get_edge_from_edge_symmetry_and_arrow symmetry_length is_fermi_symmetry edge_symmetry edge_arrow rank =
     (if symmetry_length = 0
      then Inr (replicate rank \<lparr>segment = [(0, 1)], arrow = False\<rparr>)
      else edges_of_symmetry_and_arrow is_fermi_symmetry edge_symmetry edge_arrow)"

text \<open>\<^verbatim>\<open>Tensor::one(number, names_init, edge_symmetry, edge_arrow)\<close>\<close>

definition one_tensor ::
  "bool \<Rightarrow> (nat \<Rightarrow> 's) \<Rightarrow> nat \<Rightarrow> bool \<Rightarrow> 's \<Rightarrow> 'n list \<Rightarrow> 'q::{uminus, monoid_add, linorder} list \<Rightarrow> bool list
     \<Rightarrow> ('s, 'q) state \<Rightarrow> error + ('n Tensor \<times> ('s, 'q) state)" where
  "one_tensor debug_mode junk symmetry_length is_fermi_symmetry number names_init edge_symmetry edge_arrow \<sigma> =
     (let rank = length names_init
      in case get_edge_from_edge_symmetry_and_arrow symmetry_length is_fermi_symmetry
                edge_symmetry edge_arrow rank of
           Inl e \<Rightarrow> Inl e
         | Inr edges_init \<Rightarrow>
             (case Tensor_names_edges debug_mode junk names_init edges_init \<sigma> of
                Inl e \<Rightarrow> Inl e
              | Inr (result, \<sigma>') \<Rightarrow> assign_front result number \<sigma>'))"

section \<open>Copy on write\<close>

text \<open>The copy constructor of Tensor: the new handle shares the Core.\<close>

definition copy_handle :: "'n Tensor \<Rightarrow> ('s, 'q) state \<Rightarrow> 'n Tensor \<times> ('s, 'q) state" where
  "copy_handle t \<sigma> =
     (t, \<sigma>\<lparr>heap := (heap \<sigma>)[core t :=
               (heap \<sigma> ! core t)\<lparr>use_count := use_count (heap \<sigma> ! core t) + 1\<rparr>]\<rparr>)"

text \<open>Assigning a new pointer to \<^verbatim>\<open>core\<close> gives up one share of the old control block.\<close>

definition release :: "nat \<Rightarrow> ('s, 'q) state \<Rightarrow> ('s, 'q) state" where
  "release p \<sigma> =
     \<sigma>\<lparr>heap := (heap \<sigma>)[p := (heap \<sigma> ! p)\<lparr>use_count := use_count (heap \<sigma> ! p) - 1\<rparr>]\<rparr>"

text \<open>
  Modelled from the spec: \<^verbatim>\<open>detail::what_if_copy_shared\<close> is not among the sources. Spec
  section 7: the diagnostics of copy on write are warnings, not errors.
\<close>

definition what_if_copy_shared :: "string \<Rightarrow> ('s, 'q) state \<Rightarrow> ('s, 'q) state" where
  "what_if_copy_shared message \<sigma> = \<sigma>\<lparr>warnings := warnings \<sigma> @ [message]\<rparr>"

definition acquare_data_ownership ::
  "string \<Rightarrow> 'n Tensor \<Rightarrow> ('s, 'q) state \<Rightarrow> 'n Tensor \<times> ('s, 'q) state" where
  "acquare_data_ownership message this \<sigma> =
     (if use_count (heap \<sigma> ! core this) \<noteq> 1
      then (let (p, \<sigma>1) = make_shared (deref \<sigma> this) \<sigma>;
                \<sigma>2 = release (core this) \<sigma>1
            in (this\<lparr>core := p\<rparr>, what_if_copy_shared message \<sigma>2))
      else (this, \<sigma>))"

section \<open>Elementwise operations\<close>

definition transform :: "('s \<Rightarrow> 's) \<Rightarrow> 'n Tensor \<Rightarrow> ('s, 'q) state \<Rightarrow> 'n Tensor \<times> ('s, 'q) state" where
  "transform function this \<sigma> =
     (let (this', \<sigma>') = acquare_data_ownership ''Set tensor shared, copy happened here'' this \<sigma>
      in (this', put_storage this' (map function (storage \<sigma>' this')) \<sigma>'))"

text \<open>
  \<^verbatim>\<open>std::generate\<close> calls the generator once for each element, in order. A generator is a
  step function on its own state.
\<close>

fun generate :: "nat \<Rightarrow> ('g \<Rightarrow> 's \<times> 'g) \<Rightarrow> 'g \<Rightarrow> 's list" where
  "generate 0 generator g = []"
| "generate (Suc n) generator g =
     (let (x, g') = generator g in x # generate n generator g')"

definition set_tensor ::
  "('g \<Rightarrow> 's \<times> 'g) \<Rightarrow> 'g \<Rightarrow> 'n Tensor \<Rightarrow> ('s, 'q) state \<Rightarrow> 'n Tensor \<times> ('s, 'q) state" where
  "set_tensor generator g this \<sigma> =
     (let (this', \<sigma>') = acquare_data_ownership ''Set tensor shared, copy happened here'' this \<sigma>
      in (this', put_storage this' (generate (length (storage \<sigma>' this')) generator g) \<sigma>'))"

definition zero_tensor :: "'n Tensor \<Rightarrow> ('s::zero, 'q) state \<Rightarrow> 'n Tensor \<times> ('s, 'q) state" where
  "zero_tensor this \<sigma> = set_tensor (\<lambda>u. (0, u)) () this \<sigma>"


text \<open>\<^verbatim>\<open>same_shape\<close>, \<^verbatim>\<open>map\<close> and \<^verbatim>\<open>copy\<close>. Cores of different scalar types live in different
  heaps: \<open>\<sigma>\<close> holds the Core of \<open>this\<close>, and the result is made in \<open>\<rho>\<close>, the heap of the
  new scalar type.\<close>

definition same_shape ::
  "bool \<Rightarrow> (nat \<Rightarrow> 'r) \<Rightarrow> 'n Tensor \<Rightarrow> ('s, 'q::{uminus, monoid_add, linorder}) state \<Rightarrow> ('r, 'q) state
     \<Rightarrow> error + ('n Tensor \<times> ('r, 'q) state)" where
  "same_shape debug_mode junk this \<sigma> \<rho> =
     Tensor_names_edges debug_mode junk (names this) (edges \<sigma> this) \<rho>"

text \<open>\<^verbatim>\<open>std::transform\<close> into the storage of the result; it writes as many elements as the
  source has, and writing past the end of the destination is undefined.\<close>

definition map_tensor ::
  "bool \<Rightarrow> (nat \<Rightarrow> 'r) \<Rightarrow> ('s \<Rightarrow> 'r) \<Rightarrow> 'n Tensor \<Rightarrow> ('s, 'q::{uminus, monoid_add, linorder}) state
     \<Rightarrow> ('r, 'q) state \<Rightarrow> error + ('n Tensor \<times> ('r, 'q) state)" where
  "map_tensor debug_mode junk function this \<sigma> \<rho> =
     (case same_shape debug_mode junk this \<sigma> \<rho> of
        Inl e \<Rightarrow> Inl e
      | Inr (result, \<rho>') \<Rightarrow>
          (let source = storage \<sigma> this; destination = storage \<rho>' result
           in if length destination < length source
              then Inl (undefined_behaviour ''write past the end of the storage'')
              else Inr (result,
                     put_storage result
                       (map function source @ drop (length source) destination) \<rho>')))"

text \<open>\<^verbatim>\<open>copy\<close> reads \<open>this\<close> in the heap where it makes the result.\<close>

definition copy :: "bool \<Rightarrow> (nat \<Rightarrow> 's) \<Rightarrow> 'n Tensor \<Rightarrow> ('s, 'q::{uminus, monoid_add, linorder}) state
     \<Rightarrow> error + ('n Tensor \<times> ('s, 'q) state)" where
  "copy debug_mode junk this \<sigma> = map_tensor debug_mode junk (\<lambda>x. x) this \<sigma> \<sigma>"

text \<open>
  \<^verbatim>\<open>to<OtherScalarType>\<close> chooses its branch from the two scalar types when it is compiled,
  so each branch is a function here: the same type, a complex type to a real type, and any
  other pair, whose conversion \<^verbatim>\<open>OtherScalarType(input)\<close> is a parameter.
\<close>

definition to_same :: "'n Tensor \<Rightarrow> ('s, 'q) state \<Rightarrow> 'n Tensor \<times> ('s, 'q) state" where
  "to_same this \<sigma> = copy_handle this \<sigma>"

definition to_complex_real ::
  "bool \<Rightarrow> (nat \<Rightarrow> real) \<Rightarrow> 'n Tensor \<Rightarrow> (complex, 'q::{uminus, monoid_add, linorder}) state
     \<Rightarrow> (real, 'q) state \<Rightarrow> error + ('n Tensor \<times> (real, 'q) state)" where
  "to_complex_real debug_mode junk this \<sigma> \<rho> =
     map_tensor debug_mode junk (\<lambda>input. Re input) this \<sigma> \<rho>"

definition to_other ::
  "('s \<Rightarrow> 'r) \<Rightarrow> bool \<Rightarrow> (nat \<Rightarrow> 'r) \<Rightarrow> 'n Tensor \<Rightarrow> ('s, 'q::{uminus, monoid_add, linorder}) state
     \<Rightarrow> ('r, 'q) state \<Rightarrow> error + ('n Tensor \<times> ('r, 'q) state)" where
  "to_other OtherScalarType debug_mode junk this \<sigma> \<rho> =
     map_tensor debug_mode junk (\<lambda>input. OtherScalarType input) this \<sigma> \<rho>"

section \<open>Reading elements and blocks\<close>

definition scalar_like :: "('s, 'q) state \<Rightarrow> 'n Tensor \<Rightarrow> bool" where
  "scalar_like \<sigma> this = (length (storage \<sigma> this) = 1)"

definition const_at :: "('s, 'q) state \<Rightarrow> 'n Tensor \<Rightarrow> error + 's" where
  "const_at \<sigma> this =
     (if \<not> scalar_like \<sigma> this
      then detail_error ''Try to get the only element of t he tensor which contains more than one element''
      else (case storage \<sigma> this of
              [] \<Rightarrow> Inl (undefined_behaviour ''front() of an empty storage'')
            | x # rest \<Rightarrow> Inr x))"

text \<open>\<^verbatim>\<open>explicit operator ScalarType() const\<close>\<close>

definition operator_ScalarType :: "('s, 'q) state \<Rightarrow> 'n Tensor \<Rightarrow> error + 's" where
  "operator_ScalarType \<sigma> this = const_at \<sigma> this"

text \<open>
  \<^verbatim>\<open>get_item\<close> is declared in the class and defined outside the sources. It is a parameter:
  from the names, the Core and a position it gives the place in the storage of the element
  it refers to, or fails.
\<close>

definition const_at_position ::
  "('n list \<Rightarrow> ('s, 'q) Core \<Rightarrow> 'p \<Rightarrow> error + nat) \<Rightarrow> ('s, 'q) state \<Rightarrow> 'n Tensor \<Rightarrow> 'p \<Rightarrow> error + 's" where
  "const_at_position get_item \<sigma> this position =
     (case get_item (names this) (deref \<sigma> this) position of
        Inl e \<Rightarrow> Inl e
      | Inr i \<Rightarrow> Inr (storage \<sigma> this ! i))"






fun lexicographical_compare :: "'q::linorder list \<Rightarrow> 'q list \<Rightarrow> bool" where
  "lexicographical_compare [] [] = False"
| "lexicographical_compare [] (b # bs) = True"
| "lexicographical_compare (a # as) [] = False"
| "lexicographical_compare (a # as) (b # bs) =
     (if a < b then True else if b < a then False else lexicographical_compare as bs)"

text \<open>
  \<^verbatim>\<open>std::lower_bound\<close>, the binary search of the standard library, on the \<open>len\<close> elements of
  \<open>v\<close> from position \<open>first\<close> on.
\<close>

function lower_bound :: "('a \<Rightarrow> 'k \<Rightarrow> bool) \<Rightarrow> 'a list \<Rightarrow> 'k \<Rightarrow> nat \<Rightarrow> nat \<Rightarrow> nat" where
  "lower_bound compare v val first len =
     (if len = 0 then first
      else (let half = len div 2; middle = first + half
            in if compare (v ! middle) val
               then lower_bound compare v val (middle + 1) (len - half - 1)
               else lower_bound compare v val first half))"
  by pat_completeness auto
termination
  by (relation "measure (\<lambda>(compare, v, val, first, len). len)") auto

declare lower_bound.simps [simp del]

text \<open>
  \<^verbatim>\<open>find_block\<close> returns an iterator into the blocks of the Core: a position, and the length
  of the list for \<^verbatim>\<open>end()\<close>.
\<close>

definition find_block :: "('s, 'q::linorder) state \<Rightarrow> 'n Tensor \<Rightarrow> 'q list \<Rightarrow> nat" where
  "find_block \<sigma> this symmetry_list =
     (let v = core_blocks (deref \<sigma> this);
          key = symmetry_list;
          result = lower_bound (\<lambda>a b. lexicographical_compare (fst a) b) v key 0 (length v)
      in if result = length v then length v
         else if fst (v ! result) = key then result
         else length v)"

definition blocks :: "('s, 'q::linorder) state \<Rightarrow> 'n Tensor \<Rightarrow> 'q list \<Rightarrow> error + content_vector_t" where
  "blocks \<sigma> this symmetry_list =
     (let found = find_block \<sigma> this symmetry_list
      in if found = length (core_blocks (deref \<sigma> this))
         then detail_error ''No such symmetry block in the tensor''
         else Inr (snd (core_blocks (deref \<sigma> this) ! found)))"

text \<open>The scalars that a view of a block covers.\<close>

definition content :: "('s, 'q) state \<Rightarrow> 'n Tensor \<Rightarrow> content_vector_t \<Rightarrow> 's list" where
  "content \<sigma> this view = take (volume (snd view)) (drop (fst view) (storage \<sigma> this))"

section \<open>Operations on edges\<close>

text \<open>
  Modelled from the spec: \<^verbatim>\<open>edge_rename\<close> is declared in the class and defined outside the
  sources. Spec section 4.4: rename performs no data copy; it returns a Tensor sharing the
  same Core with a new names vector. The result names have the type of the names of the
  tensor, the default of the declaration; a name that the dictionary does not mention
  stays. The spec calls a renaming that yields a name twice a programming error and gives
  it no behaviour; the model does not look for it.
\<close>

definition edge_rename ::
  "('n \<rightharpoonup> 'n) \<Rightarrow> 'n Tensor \<Rightarrow> ('s, 'q) state \<Rightarrow> 'n Tensor \<times> ('s, 'q) state" where
  "edge_rename dictionary this \<sigma> =
     (\<lparr>names = map (\<lambda>name. case dictionary name of None \<Rightarrow> name | Some new_name \<Rightarrow> new_name)
                (names this),
       core = core this\<rparr>,
      snd (copy_handle this \<sigma>))"

text \<open>
  \<^verbatim>\<open>edge_operator_implement\<close> is declared in the class and defined outside the sources; it is
  the parameter \<open>implement\<close>. Its container arguments are the sequences that iterating over
  them yields (a \<^verbatim>\<open>std::map\<close> gives its entries, a \<^verbatim>\<open>std::set\<close> its elements), and
  \<^verbatim>\<open>empty_list<T>()\<close> is the empty sequence. The guard \<^verbatim>\<open>scope_resource\<close> only chooses the
  allocator of the temporaries.
\<close>

type_synonym ('n, 'q) split_map_t = "('n \<times> ('n \<times> ('q \<times> nat) list) list) list"

type_synonym ('n, 's, 'q) edge_operator_implement_t =
  "('n, 'q) split_map_t \<Rightarrow> 'n list \<Rightarrow> ('n \<times> 'n list) list \<Rightarrow> 'n list \<Rightarrow> bool
     \<Rightarrow> 'n list \<Rightarrow> 'n list \<Rightarrow> 'n list \<Rightarrow> 'n list \<Rightarrow> ('n \<times> ('q \<times> nat) list) list
     \<Rightarrow> 'n Tensor \<Rightarrow> ('s, 'q) state \<Rightarrow> error + ('n Tensor \<times> ('s, 'q) state)"

definition edge_operator ::
  "('n, 's, 'q) edge_operator_implement_t \<Rightarrow> ('n, 'q) split_map_t \<Rightarrow> 'n list \<Rightarrow> ('n \<times> 'n list) list
     \<Rightarrow> 'n list \<Rightarrow> bool \<Rightarrow> 'n list \<Rightarrow> 'n list \<Rightarrow> 'n list \<Rightarrow> 'n list
     \<Rightarrow> 'n Tensor \<Rightarrow> ('s, 'q) state \<Rightarrow> error + ('n Tensor \<times> ('s, 'q) state)" where
  "edge_operator implement split_map reversed_name merge_map new_names apply_parity
       parity_exclude_name_split parity_exclude_name_reversed_before_transpose
       parity_exclude_name_reversed_after_transpose parity_exclude_name_merge this \<sigma> =
     implement split_map reversed_name merge_map new_names apply_parity
       parity_exclude_name_split parity_exclude_name_reversed_before_transpose
       parity_exclude_name_reversed_after_transpose parity_exclude_name_merge [] this \<sigma>"

definition transpose_tensor ::
  "('n, 's, 'q) edge_operator_implement_t \<Rightarrow> 'n list
     \<Rightarrow> 'n Tensor \<Rightarrow> ('s, 'q) state \<Rightarrow> error + ('n Tensor \<times> ('s, 'q) state)" where
  "transpose_tensor implement target_names this \<sigma> =
     implement [] [] [] target_names False [] [] [] [] [] this \<sigma>"

definition reverse_edge ::
  "('n, 's, 'q) edge_operator_implement_t \<Rightarrow> 'n list \<Rightarrow> bool \<Rightarrow> 'n list
     \<Rightarrow> 'n Tensor \<Rightarrow> ('s, 'q) state \<Rightarrow> error + ('n Tensor \<times> ('s, 'q) state)" where
  "reverse_edge implement reversed_name apply_parity parity_exclude_name this \<sigma> =
     implement [] reversed_name [] (names this) apply_parity [] parity_exclude_name [] [] [] this \<sigma>"

section \<open>Construction\<close>

lemma duplicated_names_iff: "duplicated_names ns \<longleftrightarrow> \<not> distinct ns"
  by (induction ns) auto

lemma allowed_blocks_Nil: "allowed_blocks [] = [([], [])]"
  by (simp add: allowed_blocks_def candidate_blocks_def conserved_def signed_sum_def)

lemma Core_init_Nil:
  "Core_init junk [] = \<lparr>core_edges = [], core_blocks = [([], (0, []))], core_storage = [junk 0]\<rparr>"
  by (simp add: Core_init_def allowed_blocks_Nil total_volume_def volume_def)

lemma constructor_without_debug_mode:
  "Tensor_names_edges False junk ns es \<sigma>
     = Inr (\<lparr>names = ns, core = length (heap \<sigma>)\<rparr>, snd (make_shared (Core_init junk es) \<sigma>))"
  by (simp add: Tensor_names_edges_def make_shared_def)

lemma Tensor_names_edges_deref:
  assumes "Tensor_names_edges debug_mode junk ns es \<sigma> = Inr (t, \<sigma>')"
  shows "deref \<sigma>' t = Core_init junk es" and "names t = ns"
  using assms
  by (auto simp: Tensor_names_edges_def make_shared_def deref_def Let_def
      split: if_splits sum.splits)

text \<open>
  C7, as the claim states it, fails: without \<^verbatim>\<open>debug_mode\<close> the constructor does not look at
  the names. Two equal names on a tensor of one edge are accepted.
\<close>

theorem Tensor_names_edges_unchecked:
  "Tensor_names_edges False (of_nat :: nat \<Rightarrow> int) [''i'', ''i'']
     [\<lparr>segment = [(0::int, 1)], arrow = False\<rparr>] \<lparr>heap = [], warnings = []\<rparr>
   = Inr (\<lparr>names = [''i'', ''i''], core = 0\<rparr>,
          \<lparr>heap = [\<lparr>payload = \<lparr>core_edges = [\<lparr>segment = [(0::int, 1)], arrow = False\<rparr>],
                                core_blocks = [([0], (0, [1]))],
                                core_storage = [0]\<rparr>,
                     use_count = 1\<rparr>],
           warnings = []\<rparr>)"
  by code_simp

text \<open>
  C7, amended: with \<^verbatim>\<open>debug_mode\<close> set, constructing a Tensor from a name list and an edge
  list raises a fatal error when the length of the name list differs from the number of
  edges or when two names are equal. In every other case, and always without
  \<^verbatim>\<open>debug_mode\<close>, the construction succeeds, the tensor has the given names and edges, and
  its rank is the length of the name list.
\<close>

theorem Tensor_names_edges_checks_in_debug_mode:
  "(debug_mode \<and> (length ns \<noteq> length es \<or> \<not> distinct ns) \<longrightarrow>
      (\<exists>message. Tensor_names_edges debug_mode junk ns es \<sigma> = Inl (runtime_error message)))
   \<and> (\<not> (debug_mode \<and> (length ns \<noteq> length es \<or> \<not> distinct ns)) \<longrightarrow>
      (\<exists>t \<sigma>'. Tensor_names_edges debug_mode junk ns es \<sigma> = Inr (t, \<sigma>')
          \<and> get_rank t = length ns \<and> names t = ns \<and> edges \<sigma>' t = es))"
  by (auto simp: Tensor_names_edges_def make_shared_def check_valid_name_def detail_error_def
      duplicated_names_iff edges_def deref_def Core_init_def get_rank_def Let_def)

theorem Tensor_names_edges_checks_in_debug_mode_witness:
  "(\<exists>message. Tensor_names_edges True (of_nat :: nat \<Rightarrow> int) [''i'', ''i'']
       [\<lparr>segment = [(0::int, 1)], arrow = False\<rparr>, \<lparr>segment = [(0::int, 1)], arrow = False\<rparr>]
       \<lparr>heap = [], warnings = []\<rparr> = Inl (runtime_error message))
   \<and> (\<exists>t \<sigma>'. Tensor_names_edges True (of_nat :: nat \<Rightarrow> int) [''i'', ''j'']
       [\<lparr>segment = [(0::int, 1)], arrow = False\<rparr>, \<lparr>segment = [(0::int, 1)], arrow = False\<rparr>]
       \<lparr>heap = [], warnings = []\<rparr> = Inr (t, \<sigma>') \<and> get_rank t = 2)"
  using Tensor_names_edges_checks_in_debug_mode
          [of True "[''i'', ''i'']"
            "[\<lparr>segment = [(0::int, 1)], arrow = False\<rparr>, \<lparr>segment = [(0::int, 1)], arrow = False\<rparr>]"
            "of_nat :: nat \<Rightarrow> int" "\<lparr>heap = [], warnings = []\<rparr>"]
        Tensor_names_edges_checks_in_debug_mode
          [of True "[''i'', ''j'']"
            "[\<lparr>segment = [(0::int, 1)], arrow = False\<rparr>, \<lparr>segment = [(0::int, 1)], arrow = False\<rparr>]"
            "of_nat :: nat \<Rightarrow> int" "\<lparr>heap = [], warnings = []\<rparr>"]
  by auto

text \<open>
  C9: the default constructor makes a tensor of rank 0, with no name and no edge, whose
  storage holds exactly one scalar, and that scalar is 1, whatever the fresh memory held.
\<close>

theorem Tensor_default_is_one:
  "\<exists>t \<sigma>'. Tensor_default debug_mode junk \<sigma> = Inr (t, \<sigma>')
      \<and> names t = [] \<and> get_rank t = 0 \<and> edges \<sigma>' t = [] \<and> storage \<sigma>' t = [1]"
  by (simp add: Tensor_default_def Tensor_number_def Tensor_names_edges_def make_shared_def
      check_valid_name_def edges_def deref_def Core_init_Nil Let_def assign_front_def
      storage_def get_rank_def put_storage_def)

section \<open>Looking up a block\<close>

text \<open>
  \<^verbatim>\<open>std::lexicographical_compare\<close> on two symmetry lists is the lexicographic order of lists.
\<close>

lemma lexicographical_compare_less: "lexicographical_compare a b \<longleftrightarrow> a < b"
  by (induction a b rule: lexicographical_compare.induct) auto

lemma strict_sorted_blocks:
  "sorted_wrt (\<lambda>a b. lexicographical_compare (fst a) (fst b)) v
     \<longleftrightarrow> sorted (map fst v) \<and> distinct (map fst v)"
proof -
  have "sorted_wrt (\<lambda>a b. lexicographical_compare (fst a) (fst b)) v
          = sorted_wrt (<) (map fst v)"
    unfolding sorted_wrt_map by (simp add: lexicographical_compare_less)
  then show ?thesis by (simp add: strict_sorted_iff)
qed

text \<open>
  On a sorted range the binary search returns the first position whose element is not
  less than the value.
\<close>

lemma lower_bound_spec:
  assumes srt: "sorted (map key v)"
    and cmp: "\<And>a. compare a val \<longleftrightarrow> key a < (val::'k::linorder)"
  shows "first + len \<le> length v \<Longrightarrow>
         first \<le> lower_bound compare v val first len
       \<and> lower_bound compare v val first len \<le> first + len
       \<and> (\<forall>i. first \<le> i \<and> i < lower_bound compare v val first len \<longrightarrow> key (v ! i) < val)
       \<and> (\<forall>i. lower_bound compare v val first len \<le> i \<and> i < first + len
              \<longrightarrow> \<not> key (v ! i) < val)"
proof (induction len arbitrary: first rule: less_induct)
  case (less len)
  have mono: "\<And>i j. i \<le> j \<Longrightarrow> j < length v \<Longrightarrow> key (v ! i) \<le> key (v ! j)"
    using srt by (simp add: sorted_iff_nth_mono)
  show ?case
  proof (cases "len = 0")
    case True
    then have "lower_bound compare v val first len = first"
      by (subst lower_bound.simps) simp
    then show ?thesis using True by auto
  next
    case False
    define half where "half = len div 2"
    define middle where "middle = first + half"
    have hl: "half < len" using False by (simp add: half_def)
    have ml: "middle < length v" using hl less.prems by (simp add: middle_def)
    show ?thesis
    proof (cases "compare (v ! middle) val")
      case True
      have eq: "lower_bound compare v val first len
                  = lower_bound compare v val (middle + 1) (len - half - 1)"
        using False True by (subst lower_bound.simps) (simp add: Let_def half_def middle_def)
      have sum: "(middle + 1) + (len - half - 1) = first + len"
        using hl by (simp add: middle_def)
      have ih: "middle + 1 \<le> lower_bound compare v val (middle + 1) (len - half - 1)
       \<and> lower_bound compare v val (middle + 1) (len - half - 1) \<le> first + len
       \<and> (\<forall>i. (middle + 1) \<le> i \<and> i < lower_bound compare v val (middle + 1) (len - half - 1)
              \<longrightarrow> key (v ! i) < val)
       \<and> (\<forall>i. lower_bound compare v val (middle + 1) (len - half - 1) \<le> i \<and> i < first + len
              \<longrightarrow> \<not> key (v ! i) < val)"
        using less.IH[of "len - half - 1" "middle + 1"] hl less.prems sum by simp
      have below: "\<And>i. i \<le> middle \<Longrightarrow> key (v ! i) < val"
      proof -
        fix i assume "i \<le> middle"
        then have "key (v ! i) \<le> key (v ! middle)" using mono ml by blast
        moreover have "key (v ! middle) < val" using True cmp by simp
        ultimately show "key (v ! i) < val" by simp
      qed
      have fm: "first \<le> middle + 1" by (simp add: middle_def)
      show ?thesis unfolding eq using ih below fm
        by (metis Suc_eq_plus1 not_less_eq_eq le_trans)
    next
      case F2: False
      have eq: "lower_bound compare v val first len = lower_bound compare v val first half"
        using False F2 by (subst lower_bound.simps) (simp add: Let_def half_def middle_def)
      have ih: "first \<le> lower_bound compare v val first half
       \<and> lower_bound compare v val first half \<le> middle
       \<and> (\<forall>i. first \<le> i \<and> i < lower_bound compare v val first half \<longrightarrow> key (v ! i) < val)
       \<and> (\<forall>i. lower_bound compare v val first half \<le> i \<and> i < middle \<longrightarrow> \<not> key (v ! i) < val)"
        using less.IH[of half first] hl less.prems by (simp add: middle_def)
      have above: "\<And>i. middle \<le> i \<Longrightarrow> i < first + len \<Longrightarrow> \<not> key (v ! i) < val"
      proof -
        fix i assume "middle \<le> i" "i < first + len"
        then have "key (v ! middle) \<le> key (v ! i)" using mono less.prems by simp
        moreover have "\<not> key (v ! middle) < val" using F2 cmp by simp
        ultimately show "\<not> key (v ! i) < val" by simp
      qed
      have mf: "middle \<le> first + len" using hl by (simp add: middle_def)
      show ?thesis unfolding eq using ih above mf
        by (metis le_trans not_le_imp_less)
    qed
  qed
qed

lemma find_block_found:
  assumes "sorted (map fst (core_blocks (deref \<sigma> t)))"
  shows "find_block \<sigma> t key \<le> length (core_blocks (deref \<sigma> t))"
    and "find_block \<sigma> t key < length (core_blocks (deref \<sigma> t))
           \<longleftrightarrow> key \<in> fst ` set (core_blocks (deref \<sigma> t))"
    and "find_block \<sigma> t key < length (core_blocks (deref \<sigma> t))
           \<Longrightarrow> fst (core_blocks (deref \<sigma> t) ! find_block \<sigma> t key) = key"
proof -
  define v where "v = core_blocks (deref \<sigma> t)"
  define r where "r = lower_bound (\<lambda>a b. lexicographical_compare (fst a) b) v key 0 (length v)"
  have fb: "find_block \<sigma> t key
              = (if r = length v then length v else if fst (v ! r) = key then r else length v)"
    by (simp add: find_block_def Let_def v_def r_def)
  have srt: "sorted (map fst v)" using assms by (simp add: v_def)
  have spec: "r \<le> length v \<and> (\<forall>i. i < r \<longrightarrow> fst (v ! i) < key)
                \<and> (\<forall>i. r \<le> i \<and> i < length v \<longrightarrow> \<not> fst (v ! i) < key)"
    using lower_bound_spec[OF srt, of "\<lambda>a b. lexicographical_compare (fst a) b" key 0 "length v"]
    by (simp add: lexicographical_compare_less r_def)
  have mono: "\<And>i j. i \<le> j \<Longrightarrow> j < length v \<Longrightarrow> fst (v ! i) \<le> fst (v ! j)"
    using srt by (simp add: sorted_iff_nth_mono)
  show "find_block \<sigma> t key \<le> length (core_blocks (deref \<sigma> t))"
    using spec by (simp add: fb v_def[symmetric])
  have iff: "find_block \<sigma> t key < length v \<longleftrightarrow> key \<in> fst ` set v"
  proof
    assume "find_block \<sigma> t key < length v"
    then have "r < length v" "fst (v ! r) = key" by (auto simp: fb split: if_splits)
    then show "key \<in> fst ` set v" by (metis image_eqI nth_mem)
  next
    assume "key \<in> fst ` set v"
    then obtain j where j: "j < length v" "fst (v ! j) = key"
      by (auto simp: in_set_conv_nth)
    have rj: "r \<le> j" using spec j by (metis less_irrefl not_le_imp_less)
    then have rl: "r < length v" using j by simp
    have "fst (v ! r) \<le> key" using mono[OF rj j(1)] j by simp
    moreover have "\<not> fst (v ! r) < key" using spec rl by simp
    ultimately have "fst (v ! r) = key" by simp
    then show "find_block \<sigma> t key < length v" using rl by (simp add: fb)
  qed
  then show "find_block \<sigma> t key < length (core_blocks (deref \<sigma> t))
               \<longleftrightarrow> key \<in> fst ` set (core_blocks (deref \<sigma> t))"
    by (simp add: v_def)
  show "find_block \<sigma> t key < length (core_blocks (deref \<sigma> t))
          \<Longrightarrow> fst (core_blocks (deref \<sigma> t) ! find_block \<sigma> t key) = key"
    by (auto simp: fb v_def[symmetric] split: if_splits)
qed

text \<open>
  C6: on a Core whose block list is sorted, with each symmetry tuple at most once,
  \<^verbatim>\<open>blocks(key)\<close> returns the content of the block whose tuple is \<open>key\<close> when the list has
  one, and raises the fatal error "No such symmetry block in the tensor" when it has none.
  \<^verbatim>\<open>blocks\<close> is a const member: it reads the state and returns no state, so the tensor is
  as it was.
\<close>

theorem blocks_returns_the_block_or_fails:
  assumes "sorted_wrt (\<lambda>a b. lexicographical_compare (fst a) (fst b)) (core_blocks (deref \<sigma> t))"
  shows "((key, view) \<in> set (core_blocks (deref \<sigma> t)) \<longrightarrow> blocks \<sigma> t key = Inr view)
     \<and> (key \<notin> fst ` set (core_blocks (deref \<sigma> t)) \<longrightarrow>
          blocks \<sigma> t key = Inl (runtime_error ''No such symmetry block in the tensor''))"
proof -
  define v where "v = core_blocks (deref \<sigma> t)"
  have sd: "sorted (map fst v)" "distinct (map fst v)"
    using assms by (simp_all add: strict_sorted_blocks v_def)
  note fb = find_block_found[of \<sigma> t key, folded v_def, OF sd(1)]
  have miss: "key \<notin> fst ` set v
      \<Longrightarrow> blocks \<sigma> t key = Inl (runtime_error ''No such symmetry block in the tensor'')"
    using fb(1,2) by (simp add: blocks_def Let_def detail_error_def v_def[symmetric])
  have hit: "blocks \<sigma> t key = Inr view" if mem: "(key, view) \<in> set v"
  proof -
    have "key \<in> fst ` set v" using mem by force
    then have lt: "find_block \<sigma> t key < length v" using fb(2) by simp
    have k: "fst (v ! find_block \<sigma> t key) = key" using fb(3)[OF lt] .
    obtain j where j: "j < length v" "v ! j = (key, view)"
      using mem by (auto simp: in_set_conv_nth)
    have "map fst v ! j = map fst v ! find_block \<sigma> t key" using j lt k by simp
    then have "j = find_block \<sigma> t key"
      using nth_eq_iff_index_eq[OF sd(2), of j "find_block \<sigma> t key"] j(1) lt by simp
    then have "snd (v ! find_block \<sigma> t key) = view" using j by simp
    then show ?thesis using lt by (simp add: blocks_def Let_def v_def[symmetric])
  qed
  show ?thesis using miss hit by (simp add: v_def)
qed

theorem blocks_returns_the_block_or_fails_witness:
  "blocks \<lparr>heap = [\<lparr>payload = \<lparr>core_edges = [\<lparr>segment = [(0, 1), (1, 2)], arrow = False\<rparr>,
                                               \<lparr>segment = [(- 1 :: int, 2), (0, 3)], arrow = False\<rparr>],
                                 core_blocks = [([0, 0], (0, [1, 3])), ([1, - 1], (3, [2, 2]))],
                                 core_storage = [0, 1, 2, 3, 4, 5, 6 :: int]\<rparr>, use_count = 1\<rparr>],
           warnings = []\<rparr> \<lparr>names = [''Left'', ''Right''], core = 0\<rparr> [1, - 1] = Inr (3, [2, 2])
   \<and> blocks \<lparr>heap = [\<lparr>payload = \<lparr>core_edges = [\<lparr>segment = [(0, 1), (1, 2)], arrow = False\<rparr>,
                                               \<lparr>segment = [(- 1 :: int, 2), (0, 3)], arrow = False\<rparr>],
                                 core_blocks = [([0, 0], (0, [1, 3])), ([1, - 1], (3, [2, 2]))],
                                 core_storage = [0, 1, 2, 3, 4, 5, 6 :: int]\<rparr>, use_count = 1\<rparr>],
           warnings = []\<rparr> \<lparr>names = [''Left'', ''Right''], core = 0\<rparr> [1, 1]
       = Inl (runtime_error ''No such symmetry block in the tensor'')"
proof -
  let ?\<sigma> = "\<lparr>heap = [\<lparr>payload = \<lparr>core_edges = [\<lparr>segment = [(0, 1), (1, 2)], arrow = False\<rparr>,
                                               \<lparr>segment = [(- 1 :: int, 2), (0, 3)], arrow = False\<rparr>],
                                 core_blocks = [([0, 0], (0, [1, 3])), ([1, - 1], (3, [2, 2]))],
                                 core_storage = [0, 1, 2, 3, 4, 5, 6 :: int]\<rparr>, use_count = 1\<rparr>],
           warnings = []\<rparr>"
  let ?t = "\<lparr>names = [''Left'', ''Right''], core = 0\<rparr>"
  have s: "sorted_wrt (\<lambda>a b. lexicographical_compare (fst a) (fst b)) (core_blocks (deref ?\<sigma> ?t))"
    by (simp add: deref_def)
  show ?thesis
    using blocks_returns_the_block_or_fails[OF s, of "[1, - 1]" "(3, [2, 2])"]
          blocks_returns_the_block_or_fails[OF s, of "[1, 1]"]
    by (simp add: deref_def)
qed

section \<open>The scalar of a tensor\<close>

text \<open>
  C5: the conversion to the scalar type, which is \<^verbatim>\<open>const_at()\<close>, returns the only stored
  scalar when the storage has length 1. For every other length, the empty storage among
  them, it is the fatal error of \<^verbatim>\<open>const_at\<close>, and there is no value.
\<close>

theorem scalar_conversion_needs_one_element:
  "(length (storage \<sigma> this) = 1 \<longrightarrow>
      (\<exists>x. storage \<sigma> this = [x] \<and> operator_ScalarType \<sigma> this = Inr x \<and> const_at \<sigma> this = Inr x))
   \<and> (length (storage \<sigma> this) \<noteq> 1 \<longrightarrow>
      operator_ScalarType \<sigma> this = Inl (runtime_error
        ''Try to get the only element of t he tensor which contains more than one element'')
      \<and> const_at \<sigma> this = Inl (runtime_error
        ''Try to get the only element of t he tensor which contains more than one element''))"
  by (cases "storage \<sigma> this")
     (auto simp: operator_ScalarType_def const_at_def scalar_like_def detail_error_def)

theorem scalar_conversion_needs_one_element_witness:
  "operator_ScalarType
      \<lparr>heap = [\<lparr>payload = \<lparr>core_edges = [\<lparr>segment = [(- 2, 1)], arrow = True\<rparr>,
                                          \<lparr>segment = [(2::int, 1)], arrow = False\<rparr>],
                            core_blocks = [([- 2, 2], (0, [1, 1]))],
                            core_storage = [2333::real]\<rparr>, use_count = 1\<rparr>],
        warnings = []\<rparr> \<lparr>names = [''i'', ''j''], core = 0\<rparr> = Inr 2333
   \<and> operator_ScalarType
      \<lparr>heap = [\<lparr>payload = \<lparr>core_edges = [\<lparr>segment = [(1::int, 2333)], arrow = False\<rparr>],
                            core_blocks = [], core_storage = ([]::real list)\<rparr>, use_count = 1\<rparr>],
        warnings = []\<rparr> \<lparr>names = [''i''], core = 0\<rparr>
      = Inl (runtime_error
          ''Try to get the only element of t he tensor which contains more than one element'')"
  using scalar_conversion_needs_one_element
          [of "\<lparr>heap = [\<lparr>payload = \<lparr>core_edges = [\<lparr>segment = [(- 2, 1)], arrow = True\<rparr>,
                                          \<lparr>segment = [(2::int, 1)], arrow = False\<rparr>],
                            core_blocks = [([- 2, 2], (0, [1, 1]))],
                            core_storage = [2333::real]\<rparr>, use_count = 1\<rparr>],
                 warnings = []\<rparr>" "\<lparr>names = [''i'', ''j''], core = 0\<rparr>"]
        scalar_conversion_needs_one_element
          [of "\<lparr>heap = [\<lparr>payload = \<lparr>core_edges = [\<lparr>segment = [(1::int, 2333)], arrow = False\<rparr>],
                            core_blocks = [], core_storage = ([]::real list)\<rparr>, use_count = 1\<rparr>],
                 warnings = []\<rparr>" "\<lparr>names = [''i''], core = 0\<rparr>"]
  by (simp add: storage_def deref_def)

section \<open>Which blocks a tensor stores\<close>

lemma layout_keys: "map fst (layout offset bs) = map fst bs"
  by (induction bs arbitrary: offset) auto

lemma sorted_allowed_blocks: "sorted (map fst (allowed_blocks es))"
  by (simp add: allowed_blocks_def)

lemma set_allowed_blocks:
  "set (allowed_blocks es) = {b \<in> set (candidate_blocks es). signed_sum es (fst b) = 0}"
  by (auto simp: allowed_blocks_def conserved_def)

lemma sum_list_insort_key:
  "sum_list (map f (insort_key k x xs)) = f x + sum_list (map (f::'a \<Rightarrow> nat) xs)"
  by (induction xs) auto

lemma sum_list_sort_key: "sum_list (map f (sort_key k xs)) = sum_list (map (f::'a \<Rightarrow> nat) xs)"
  by (induction xs) (auto simp: sum_list_insort_key)

lemma total_volume_allowed_blocks:
  "total_volume (allowed_blocks es)
     = sum_list (map (\<lambda>b. volume (snd b))
         (filter (\<lambda>b. signed_sum es (fst b) = 0) (candidate_blocks es)))"
  by (simp add: total_volume_def allowed_blocks_def sum_list_sort_key conserved_def)

text \<open>The candidate tuples take their \<open>k\<close>-th symmetry from the segments of edge \<open>k\<close>.\<close>

lemma candidate_keys:
  "key \<in> fst ` set (candidate_blocks es)
     \<longleftrightarrow> list_all2 (\<lambda>q e. q \<in> fst ` set (segment e)) key es"
proof -
  have "key \<in> fst ` set (candidate_blocks es)
          \<longleftrightarrow> (\<exists>segs. list_all2 (\<lambda>x e. x \<in> set (segment e)) segs es \<and> key = map fst segs)"
    by (auto simp: candidate_blocks_def product_lists_set list_all2_map2 image_iff)
  also have "\<dots> \<longleftrightarrow> list_all2 (\<lambda>q e. q \<in> fst ` set (segment e)) key es"
  proof (induction es arbitrary: key)
    case Nil
    then show ?case by auto
  next
    case (Cons e es)
    show ?case
    proof
      assume "\<exists>segs. list_all2 (\<lambda>x e. x \<in> set (segment e)) segs (e # es) \<and> key = map fst segs"
      then obtain segs where s: "list_all2 (\<lambda>x e. x \<in> set (segment e)) segs (e # es)"
          "key = map fst segs"
        by blast
      then obtain x xs where x: "segs = x # xs" "x \<in> set (segment e)"
          "list_all2 (\<lambda>x e. x \<in> set (segment e)) xs es"
        by (auto simp: list_all2_Cons2)
      then have "list_all2 (\<lambda>q e. q \<in> fst ` set (segment e)) (map fst xs) es"
        using Cons.IH[of "map fst xs"] by blast
      then show "list_all2 (\<lambda>q e. q \<in> fst ` set (segment e)) key (e # es)"
        using s x by auto
    next
      assume "list_all2 (\<lambda>q e. q \<in> fst ` set (segment e)) key (e # es)"
      then obtain q qs where q: "key = q # qs" "q \<in> fst ` set (segment e)"
          "list_all2 (\<lambda>q e. q \<in> fst ` set (segment e)) qs es"
        by (auto simp: list_all2_Cons2)
      then obtain xs where xs: "list_all2 (\<lambda>x e. x \<in> set (segment e)) xs es" "qs = map fst xs"
        using Cons.IH[of qs] by blast
      obtain x where "x \<in> set (segment e)" "q = fst x" using q(2) by auto
      then have "list_all2 (\<lambda>x e. x \<in> set (segment e)) (x # xs) (e # es)
                   \<and> key = map fst (x # xs)"
        using xs q by simp
      then show "\<exists>segs. list_all2 (\<lambda>x e. x \<in> set (segment e)) segs (e # es) \<and> key = map fst segs"
        by blast
    qed
  qed
  finally show ?thesis .
qed

lemma Core_init_keys:
  "key \<in> fst ` set (core_blocks (Core_init junk es))
     \<longleftrightarrow> list_all2 (\<lambda>q e. q \<in> fst ` set (segment e)) key es \<and> signed_sum es key = 0"
proof -
  have "fst ` set (core_blocks (Core_init junk es)) = set (map fst (layout 0 (allowed_blocks es)))"
    by (simp add: Core_init_def)
  also have "\<dots> = fst ` set (allowed_blocks es)" by (simp add: layout_keys)
  finally have "key \<in> fst ` set (core_blocks (Core_init junk es))
                  \<longleftrightarrow> key \<in> fst ` set (candidate_blocks es) \<and> signed_sum es key = 0"
    by (auto simp: set_allowed_blocks)
  then show ?thesis by (simp add: candidate_keys)
qed

text \<open>
  C1: for every tensor that the constructor makes, a block with the symmetry tuple
  \<open>(q\<^sub>0, \<dots>, q\<^sub>r\<^sub>-\<^sub>1)\<close>, each \<open>q\<^sub>k\<close> the symmetry of a segment of edge \<open>k\<close>, is stored, and found
  by \<^verbatim>\<open>find_block\<close> and \<^verbatim>\<open>blocks\<close>, if and only if the signed sum \<open>\<Sum>\<^sub>k s\<^sub>k \<cdot> q\<^sub>k\<close> is the identity
  of the group, where \<open>s\<^sub>k = -1\<close> exactly when edge \<open>k\<close> has its arrow set and \<open>+1\<close> otherwise.
  The length of the storage is the sum of the volumes of exactly these blocks.
\<close>

theorem blocks_stored_iff_signed_sum_is_zero:
  assumes "Tensor_names_edges debug_mode junk ns es \<sigma> = Inr (t, \<sigma>')"
  shows "(find_block \<sigma>' t key \<noteq> length (core_blocks (deref \<sigma>' t))
            \<longleftrightarrow> list_all2 (\<lambda>q e. q \<in> fst ` set (segment e)) key es
                \<and> sum_list (map2 (\<lambda>e q. if arrow e then - q else q) es key) = 0)
       \<and> ((\<exists>view. blocks \<sigma>' t key = Inr view)
            \<longleftrightarrow> list_all2 (\<lambda>q e. q \<in> fst ` set (segment e)) key es
                \<and> sum_list (map2 (\<lambda>e q. if arrow e then - q else q) es key) = 0)
       \<and> length (storage \<sigma>' t)
            = sum_list (map (\<lambda>b. volume (snd b))
                (filter (\<lambda>b. sum_list (map2 (\<lambda>e q. if arrow e then - q else q) es (fst b)) = 0)
                   (candidate_blocks es)))"
proof -
  note d = Tensor_names_edges_deref(1)[OF assms]
  have srt: "sorted (map fst (core_blocks (deref \<sigma>' t)))"
    by (simp add: d Core_init_def layout_keys sorted_allowed_blocks)
  note fb = find_block_found[OF srt, of key]
  have 1: "find_block \<sigma>' t key \<noteq> length (core_blocks (deref \<sigma>' t))
            \<longleftrightarrow> list_all2 (\<lambda>q e. q \<in> fst ` set (segment e)) key es \<and> signed_sum es key = 0"
    using fb(1,2) Core_init_keys[of key junk es] by (auto simp: d)
  have 2: "(\<exists>view. blocks \<sigma>' t key = Inr view)
             \<longleftrightarrow> find_block \<sigma>' t key \<noteq> length (core_blocks (deref \<sigma>' t))"
    by (simp add: blocks_def Let_def detail_error_def)
  have 3: "length (storage \<sigma>' t) = sum_list (map (\<lambda>b. volume (snd b))
                (filter (\<lambda>b. signed_sum es (fst b) = 0) (candidate_blocks es)))"
    by (simp add: storage_def d Core_init_def total_volume_allowed_blocks)
  show ?thesis using 1 2 3 unfolding signed_sum_def by simp
qed

text \<open>
  A tensor of two edges, the first with its arrow set: the block \<open>(1, 1)\<close> is stored, the
  tuple \<open>(1, -1)\<close>, whose plain sum is the identity, is not, and the storage holds the
  \<open>3 \<cdot> 1 + 1 \<cdot> 2 + 2 \<cdot> 3 = 11\<close> scalars of the three blocks \<open>(-1, -1)\<close>, \<open>(0, 0)\<close>, \<open>(1, 1)\<close>.
\<close>

theorem blocks_stored_iff_signed_sum_is_zero_witness:
  "(case Tensor_names_edges False (of_nat :: nat \<Rightarrow> real) [''Left'', ''Right'']
           [\<lparr>segment = [(- 1, 3), (0, 1), (1, 2)], arrow = True\<rparr>,
            \<lparr>segment = [(- 1 :: int, 1), (0, 2), (1, 3)], arrow = False\<rparr>]
           \<lparr>heap = [], warnings = []\<rparr> of
      Inl e \<Rightarrow> False
    | Inr (t, \<sigma>) \<Rightarrow>
        find_block \<sigma> t [1, 1] \<noteq> length (core_blocks (deref \<sigma> t))
        \<and> find_block \<sigma> t [1, - 1] = length (core_blocks (deref \<sigma> t))
        \<and> length (storage \<sigma> t) = 11)"
proof -
  let ?es = "[\<lparr>segment = [(- 1, 3), (0, 1), (1, 2)], arrow = True\<rparr>,
            \<lparr>segment = [(- 1 :: int, 1), (0, 2), (1, 3)], arrow = False\<rparr>]"
  note h = constructor_without_debug_mode
             [of "of_nat :: nat \<Rightarrow> real" "[''Left'', ''Right'']" ?es
                 "\<lparr>heap = [], warnings = []\<rparr>"]
  have a: "list_all2 (\<lambda>q e. q \<in> fst ` set (segment e)) [1, 1] ?es
             \<and> sum_list (map2 (\<lambda>e q. if arrow e then - q else q) ?es [1, 1 :: int]) = 0"
    by simp
  have b: "sum_list (map2 (\<lambda>e q. if arrow e then - q else q) ?es [1, - 1 :: int]) \<noteq> 0"
    by simp
  have c: "sum_list (map (\<lambda>b. volume (snd b))
             (filter (\<lambda>b. sum_list (map2 (\<lambda>e q. if arrow e then - q else q) ?es (fst b)) = 0)
                (candidate_blocks ?es))) = 11"
    by code_simp
  show ?thesis
    unfolding h
    using blocks_stored_iff_signed_sum_is_zero[OF h, of "[1, 1]"]
          blocks_stored_iff_signed_sum_is_zero[OF h, of "[1, - 1]"] a b c
    by simp
qed

section \<open>Copy on write\<close>

lemma payload_use_count_nth:
  "payload (h[p := (h ! p)\<lparr>use_count := n\<rparr>] ! i) = payload (h ! i)"
  by (cases "p < length h") (auto simp: nth_list_update list_update_beyond)

lemma map_payload_use_count: "map payload (h[p := (h ! p)\<lparr>use_count := n\<rparr>]) = map payload h"
  by (rule nth_equalityI) (simp_all add: payload_use_count_nth)

lemma acquare_shared:
  assumes "use_count (heap \<sigma> ! core this) \<noteq> 1" and "core this < length (heap \<sigma>)"
  shows "acquare_data_ownership message this \<sigma> =
           (this\<lparr>core := length (heap \<sigma>)\<rparr>,
            \<sigma>\<lparr>heap := (heap \<sigma>)[core this := (heap \<sigma> ! core this)
                           \<lparr>use_count := use_count (heap \<sigma> ! core this) - 1\<rparr>]
                        @ [\<lparr>payload = deref \<sigma> this, use_count = 1\<rparr>],
              warnings := warnings \<sigma> @ [message]\<rparr>)"
  using assms
  by (simp add: acquare_data_ownership_def make_shared_def release_def what_if_copy_shared_def
      Let_def nth_append list_update_append)

lemma acquare_unshared:
  assumes "use_count (heap \<sigma> ! core this) = 1"
  shows "acquare_data_ownership message this \<sigma> = (this, \<sigma>)"
  using assms by (simp add: acquare_data_ownership_def)



lemma put_storage_storage:
  "core t < length (heap \<sigma>) \<Longrightarrow> storage (put_storage t xs \<sigma>) t = xs"
  "core t < length (heap \<sigma>) \<Longrightarrow> edges (put_storage t xs \<sigma>) t = edges \<sigma> t"
  by (simp_all add: put_storage_def storage_def edges_def deref_def)


text \<open>What the operations write into the Core they own after the barrier.\<close>

lemma transform_storage:
  assumes "transform function this \<sigma> = (this', \<sigma>')" and "core this < length (heap \<sigma>)"
  shows "storage \<sigma>' this' = map function (storage \<sigma> this)"
proof (cases "use_count (heap \<sigma> ! core this) = 1")
  case True
  then show ?thesis using assms
    by (auto simp: transform_def acquare_unshared put_storage_storage)
next
  case False
  then show ?thesis using assms
    by (auto simp: transform_def acquare_shared[OF False assms(2)] put_storage_def storage_def
        deref_def nth_append)
qed

lemma set_tensor_storage:
  assumes "set_tensor generator g this \<sigma> = (this', \<sigma>')" and "core this < length (heap \<sigma>)"
  shows "storage \<sigma>' this' = generate (length (storage \<sigma> this)) generator g"
proof (cases "use_count (heap \<sigma> ! core this) = 1")
  case True
  then show ?thesis using assms
    by (auto simp: set_tensor_def acquare_unshared put_storage_storage)
next
  case False
  then show ?thesis using assms
    by (auto simp: set_tensor_def acquare_shared[OF False assms(2)] put_storage_def storage_def
        deref_def nth_append)
qed

lemma generate_zero: "generate n (\<lambda>u. (0, u)) () = replicate n 0"
  by (induction n) auto

lemma zero_tensor_storage:
  assumes "zero_tensor this \<sigma> = (this', \<sigma>')" and "core this < length (heap \<sigma>)"
  shows "storage \<sigma>' this' = replicate (length (storage \<sigma> this)) 0"
  using set_tensor_storage[OF assms(1)[unfolded zero_tensor_def] assms(2)]
  by (simp add: generate_zero)




section \<open>Renaming edges\<close>

text \<open>
  C3: \<^verbatim>\<open>edge_rename\<close> returns a tensor with the Core of \<open>this\<close>: the same address, no
  control block added and no Core changed, so no scalar is copied or allocated. The names
  of the result are the names of \<open>this\<close> with the dictionary applied. \<open>this\<close> is a value that
  the operation does not change, and its storage and edges are as before.
\<close>

theorem edge_rename_shares_the_core:
  "(case edge_rename dictionary this \<sigma> of (result, \<sigma>') \<Rightarrow>
      core result = core this
    \<and> names result
        = map (\<lambda>name. case dictionary name of None \<Rightarrow> name | Some new_name \<Rightarrow> new_name)
            (names this)
    \<and> length (heap \<sigma>') = length (heap \<sigma>)
    \<and> map payload (heap \<sigma>') = map payload (heap \<sigma>)
    \<and> warnings \<sigma>' = warnings \<sigma>
    \<and> deref \<sigma>' result = deref \<sigma> this
    \<and> storage \<sigma>' this = storage \<sigma> this
    \<and> edges \<sigma>' this = edges \<sigma> this)"
  by (simp add: edge_rename_def copy_handle_def deref_def storage_def edges_def
      map_payload_use_count payload_use_count_nth)

section \<open>Changing the scalar type\<close>

lemma length_Core_init_storage:
  "length (core_storage (Core_init junk es)) = total_volume (allowed_blocks es)"
  by (simp add: Core_init_def)

text \<open>
  \<^verbatim>\<open>map\<close> on a tensor whose names pass the check of the constructor and whose storage has
  the length that its edges give: the result is a new tensor of the same names and edges
  that holds the image of every element.
\<close>

lemma map_tensor_result:
  assumes "debug_mode \<longrightarrow> length (names this) = length (edges \<sigma> this) \<and> distinct (names this)"
    and "length (storage \<sigma> this) = total_volume (allowed_blocks (edges \<sigma> this))"
  shows "\<exists>result \<rho>'. map_tensor debug_mode junk function this \<sigma> \<rho> = Inr (result, \<rho>')
           \<and> names result = names this \<and> core result = length (heap \<rho>)
           \<and> edges \<rho>' result = edges \<sigma> this
           \<and> storage \<rho>' result = map function (storage \<sigma> this)"
proof -
  have ok: "\<not> (debug_mode \<and> (length (names this) \<noteq> length (edges \<sigma> this)
                                \<or> \<not> distinct (names this)))"
    using assms(1) by blast
  define r where "r = \<lparr>names = names this, core = length (heap \<rho>)\<rparr>"
  define \<rho>1 where "\<rho>1 = snd (make_shared (Core_init junk (edges \<sigma> this)) \<rho>)"
  have ss: "same_shape debug_mode junk this \<sigma> \<rho> = Inr (r, \<rho>1)"
    using ok
    by (auto simp: same_shape_def Tensor_names_edges_def make_shared_def check_valid_name_def
        duplicated_names_iff edges_def deref_def Core_init_def Let_def r_def \<rho>1_def)
  have d: "deref \<rho>1 r = Core_init junk (edges \<sigma> this)"
    by (simp add: deref_def r_def \<rho>1_def make_shared_def)
  have v: "core r < length (heap \<rho>1)" by (simp add: r_def \<rho>1_def make_shared_def)
  have len: "length (storage \<rho>1 r) = length (storage \<sigma> this)"
    using assms(2) by (simp add: storage_def d length_Core_init_storage)
  have e: "edges \<rho>1 r = edges \<sigma> this" by (simp add: edges_def d Core_init_def)
  have "map_tensor debug_mode junk function this \<sigma> \<rho>
          = Inr (r, put_storage r (map function (storage \<sigma> this)) \<rho>1)"
    using len by (simp add: map_tensor_def ss Let_def)
  then show ?thesis using v e by (simp add: put_storage_storage r_def)
qed

text \<open>
  C10: let \<open>this\<close> be a complex tensor that the constructor could have made: in
  \<^verbatim>\<open>debug_mode\<close> its names are distinct and as many as its edges, and its storage has the
  length that its edges give. Then \<^verbatim>\<open>to\<close> with a real scalar type is never an error; it
  returns a tensor with the same names and edges whose elements are the real parts of the
  elements of \<open>this\<close>, in the same order. \<^verbatim>\<open>to\<close> with the scalar type of the tensor itself
  returns a handle to the same Core: nothing is allocated and no Core changes. Scalars are
  exact real and complex numbers here.
\<close>

theorem to_real_takes_the_real_parts:
  "((debug_mode \<longrightarrow> length (names this) = length (edges \<sigma> this) \<and> distinct (names this))
     \<and> length (storage \<sigma> this) = total_volume (allowed_blocks (edges \<sigma> this)) \<longrightarrow>
     (\<exists>result \<rho>'. to_complex_real debug_mode junk this \<sigma> \<rho> = Inr (result, \<rho>')
        \<and> names result = names this
        \<and> edges \<rho>' result = edges \<sigma> this
        \<and> storage \<rho>' result = map Re (storage \<sigma> this)))
   \<and> (case to_same this \<tau> of (result, \<tau>') \<Rightarrow>
        result = this \<and> length (heap \<tau>') = length (heap \<tau>)
        \<and> map payload (heap \<tau>') = map payload (heap \<tau>))"
proof -
  have same: "(case to_same this \<tau> of (result, \<tau>') \<Rightarrow>
        result = this \<and> length (heap \<tau>') = length (heap \<tau>)
        \<and> map payload (heap \<tau>') = map payload (heap \<tau>))"
    by (simp add: to_same_def copy_handle_def map_payload_use_count)
  show ?thesis
    using same map_tensor_result[of debug_mode this \<sigma> junk "\<lambda>input. Re input" \<rho>]
    unfolding to_complex_real_def by blast
qed

theorem to_real_takes_the_real_parts_witness:
  "(\<exists>result \<rho>'. to_complex_real True (\<lambda>i. 0)
        \<lparr>names = [''i''], core = 0\<rparr>
        \<lparr>heap = [\<lparr>payload = \<lparr>core_edges = [\<lparr>segment = [(0 :: int, 2)], arrow = False\<rparr>],
                              core_blocks = [([0], (0, [2]))],
                              core_storage = [Complex 1 2, Complex 3 (- 4)]\<rparr>,
                  use_count = 1\<rparr>], warnings = []\<rparr>
        \<lparr>heap = [], warnings = []\<rparr> = Inr (result, \<rho>')
      \<and> names result = [''i''] \<and> storage \<rho>' result = [1, 3])"
proof -
  let ?\<sigma> = "\<lparr>heap = [\<lparr>payload = \<lparr>core_edges = [\<lparr>segment = [(0 :: int, 2)], arrow = False\<rparr>],
                              core_blocks = [([0], (0, [2]))],
                              core_storage = [Complex 1 2, Complex 3 (- 4)]\<rparr>,
                  use_count = 1\<rparr>], warnings = []\<rparr>"
  let ?t = "\<lparr>names = [''i''], core = 0\<rparr>"
  have tv: "total_volume (allowed_blocks [\<lparr>segment = [(0 :: int, 2)], arrow = False\<rparr>]) = 2"
    by code_simp
  have h: "(True \<longrightarrow> length (names ?t) = length (edges ?\<sigma> ?t) \<and> distinct (names ?t))
     \<and> length (storage ?\<sigma> ?t) = total_volume (allowed_blocks (edges ?\<sigma> ?t))"
    by (simp add: edges_def storage_def deref_def tv)
  from to_real_takes_the_real_parts[of True ?t ?\<sigma> "\<lambda>i. 0" "\<lparr>heap = [], warnings = []\<rparr>"] h
  have "\<exists>result \<rho>'. to_complex_real True (\<lambda>i. 0) ?t ?\<sigma> \<lparr>heap = [], warnings = []\<rparr>
                       = Inr (result, \<rho>')
        \<and> names result = names ?t
        \<and> edges \<rho>' result = edges ?\<sigma> ?t
        \<and> storage \<rho>' result = map Re (storage ?\<sigma> ?t)"
    by blast
  then show ?thesis
    by (auto simp: storage_def deref_def)
qed

section \<open>Transposition\<close>

text \<open>
  C4: \<^verbatim>\<open>transpose(target_names)\<close> returns what \<^verbatim>\<open>edge_operator\<close> returns for an empty split
  map, an empty set of reversed names, an empty merge map, \<open>target_names\<close> as the new names,
  \<^verbatim>\<open>apply_parity = false\<close> and empty exclusion sets, whatever \<^verbatim>\<open>edge_operator_implement\<close>
  does: both hand it the same arguments.
\<close>

theorem transpose_is_edge_operator_with_only_new_names:
  "transpose_tensor implement target_names this \<sigma>
     = edge_operator implement [] [] [] target_names False [] [] [] [] this \<sigma>"
  by (simp add: transpose_tensor_def edge_operator_def)

end
